theory Spec2Isabelle
  imports Main "HOL-Library.Log_Nat"
begin

section \<open>JavaScript numbers\<close>

text \<open>
  A JavaScript number is an IEEE 754 binary64 value: NaN, an infinity, or a finite double,
  which is a rational number. The two zeros are not told apart: both are falsy, and no
  handler divides. An operation on finite doubles gives the exact result rounded to the
  nearest double, ties to the even significand.
\<close>

datatype jsnum = NaN | PInf | NInf | Fin rat

text \<open>\<open>\<lfloor>log\<^sub>2 x\<rfloor>\<close> of a positive rational.\<close>

definition ilog2 :: "rat \<Rightarrow> int" where
  "ilog2 x = (if 1 \<le> x then bitlen \<lfloor>x\<rfloor> - 1 else - bitlen (\<lceil>1 / x\<rceil> - 1))"

definition round_half_even :: "rat \<Rightarrow> int" where
  "round_half_even x =
     (let f = \<lfloor>x\<rfloor>; d = x - of_int f
      in if d < 1 / 2 then f else if 1 / 2 < d then f + 1 else if even f then f else f + 1)"

text \<open>
  Rounding to binary64: 53 significant bits, the least exponent of a unit in the last
  place is \<open>-1074\<close> (subnormal numbers), and a result of magnitude \<open>2\<^sup>1\<^sup>0\<^sup>2\<^sup>4\<close> or more is
  an infinity.
\<close>

definition round_double :: "rat \<Rightarrow> jsnum" where
  "round_double x =
     (if x = 0 then Fin 0
      else
        (let q = max (ilog2 \<bar>x\<bar> - 52) (- 1074);
             y = of_int (round_half_even (\<bar>x\<bar> / 2 powi q)) * 2 powi q
         in if 2 powi 1024 \<le> y then (if 0 < x then PInf else NInf)
            else Fin (if 0 < x then y else - y)))"

text \<open>\<^verbatim>\<open>a * b\<close> and \<^verbatim>\<open>a + b\<close> on numbers.\<close>

fun fmul :: "jsnum \<Rightarrow> jsnum \<Rightarrow> jsnum" where
  "fmul (Fin x) (Fin y) = round_double (x * y)"
| "fmul NaN b = NaN"
| "fmul a NaN = NaN"
| "fmul PInf (Fin y) = (if y = 0 then NaN else if 0 < y then PInf else NInf)"
| "fmul NInf (Fin y) = (if y = 0 then NaN else if 0 < y then NInf else PInf)"
| "fmul (Fin x) PInf = (if x = 0 then NaN else if 0 < x then PInf else NInf)"
| "fmul (Fin x) NInf = (if x = 0 then NaN else if 0 < x then NInf else PInf)"
| "fmul PInf PInf = PInf"
| "fmul PInf NInf = NInf"
| "fmul NInf PInf = NInf"
| "fmul NInf NInf = PInf"

fun fadd :: "jsnum \<Rightarrow> jsnum \<Rightarrow> jsnum" where
  "fadd (Fin x) (Fin y) = round_double (x + y)"
| "fadd NaN b = NaN"
| "fadd a NaN = NaN"
| "fadd PInf NInf = NaN"
| "fadd NInf PInf = NaN"
| "fadd PInf b = PInf"
| "fadd NInf b = NInf"
| "fadd a PInf = PInf"
| "fadd a NInf = NInf"


section \<open>JavaScript strings as numbers\<close>

text \<open>
  Strings are lists of code units below 256. \<^verbatim>\<open>String.prototype.trim\<close> and the numeric
  reading of a string strip the same characters: the white space and line terminator code
  units below 256 are tab, line feed, vertical tab, form feed, carriage return, space and
  no-break space.
\<close>

definition is_space :: "char \<Rightarrow> bool" where
  "is_space c =
     (c \<in> set [CHR 0x09, CHR 0x0A, CHR 0x0B, CHR 0x0C, CHR 0x0D, CHR 0x20, CHR 0xA0])"

definition trim :: "string \<Rightarrow> string" where
  "trim s = rev (dropWhile is_space (rev (dropWhile is_space s)))"

text \<open>The value of a digit, decimal or hexadecimal in either case.\<close>

definition digit_of :: "char \<Rightarrow> int option" where
  "digit_of c =
     (let n = (of_char c :: int)
      in if 48 \<le> n \<and> n \<le> 57 then Some (n - 48)
         else if 97 \<le> n \<and> n \<le> 102 then Some (n - 87)
         else if 65 \<le> n \<and> n \<le> 70 then Some (n - 55)
         else None)"

definition is_digit :: "char \<Rightarrow> bool" where
  "is_digit c = (48 \<le> (of_char c :: int) \<and> (of_char c :: int) \<le> 57)"

fun radix_value :: "int \<Rightarrow> int \<Rightarrow> string \<Rightarrow> int option" where
  "radix_value r acc [] = Some acc"
| "radix_value r acc (c # cs) =
     (case digit_of c of
        None \<Rightarrow> None
      | Some d \<Rightarrow> if d < r then radix_value r (acc * r + d) cs else None)"

text \<open>One or more digits of the radix, and nothing else.\<close>

definition digits_value :: "int \<Rightarrow> string \<Rightarrow> int option" where
  "digits_value r ds = (if ds = [] then None else radix_value r 0 ds)"

text \<open>\<^verbatim>\<open>0x\<close>, \<^verbatim>\<open>0o\<close> and \<^verbatim>\<open>0b\<close> literals, which take no sign.\<close>

definition non_decimal_literal :: "string \<Rightarrow> int option" where
  "non_decimal_literal t =
     (case t of
        c0 # c1 # ds \<Rightarrow>
          if c0 \<noteq> CHR ''0'' then None
          else if c1 = CHR ''x'' \<or> c1 = CHR ''X'' then digits_value 16 ds
          else if c1 = CHR ''o'' \<or> c1 = CHR ''O'' then digits_value 8 ds
          else if c1 = CHR ''b'' \<or> c1 = CHR ''B'' then digits_value 2 ds
          else None
      | _ \<Rightarrow> None)"

text \<open>The optional exponent part that ends a decimal literal.\<close>

definition exponent_part :: "string \<Rightarrow> int option" where
  "exponent_part r =
     (case r of
        [] \<Rightarrow> Some 0
      | c # ds \<Rightarrow>
          if c = CHR ''e'' \<or> c = CHR ''E'' then
            (case ds of
               [] \<Rightarrow> None
             | d # ds' \<Rightarrow>
                 if d = CHR ''+'' then digits_value 10 ds'
                 else if d = CHR ''-'' then map_option uminus (digits_value 10 ds')
                 else digits_value 10 ds)
          else None)"

text \<open>
  Digits with an optional fraction, or a fraction alone, then the optional exponent: the
  exact value of the literal.
\<close>

definition unsigned_decimal :: "string \<Rightarrow> rat option" where
  "unsigned_decimal t =
     (let ip = takeWhile is_digit t;
          r1 = dropWhile is_digit t;
          dot = (r1 \<noteq> [] \<and> hd r1 = CHR ''.'');
          fp = (if dot then takeWhile is_digit (tl r1) else []);
          r2 = (if dot then dropWhile is_digit (tl r1) else r1)
      in if ip = [] \<and> fp = [] then None
         else
           (case (exponent_part r2, radix_value 10 0 ip, radix_value 10 0 fp) of
              (Some ex, Some i, Some f) \<Rightarrow>
                Some ((of_int i + of_int f / 10 ^ length fp) * 10 powi ex)
            | _ \<Rightarrow> None))"

definition signed_decimal :: "bool \<Rightarrow> string \<Rightarrow> jsnum" where
  "signed_decimal neg u =
     (if u = ''Infinity'' then (if neg then NInf else PInf)
      else
        (case unsigned_decimal u of
           None \<Rightarrow> NaN
         | Some v \<Rightarrow> round_double (if neg then - v else v)))"

text \<open>
  StringToNumber: an empty or blank string is 0, a string that is no numeric literal is
  NaN, and a literal is its exact value rounded to a double.
\<close>

definition StringToNumber :: "string \<Rightarrow> jsnum" where
  "StringToNumber s =
     (let t = trim s
      in if t = [] then Fin 0
         else
           (case non_decimal_literal t of
              Some n \<Rightarrow> round_double (of_int n)
            | None \<Rightarrow>
                if hd t = CHR ''+'' then signed_decimal False (tl t)
                else if hd t = CHR ''-'' then signed_decimal True (tl t)
                else signed_decimal False t))"


section \<open>JavaScript values\<close>

text \<open>
  The handlers of \<^verbatim>\<open>index.js\<close> decide on the truthiness of values that arrive as parsed
  JSON (request bodies, provider answers, the configuration file) or as query parameters.
  A value is \<^verbatim>\<open>undefined\<close> (a missing property), \<^verbatim>\<open>null\<close>, a boolean, a number, a
  string, an array or an object with its own properties.
\<close>

datatype jsval =
    JUndefined
  | JNull
  | JBool bool
  | JNum jsnum
  | JStr string
  | JArray "jsval list"
  | JObject "(string \<times> jsval) list"

text \<open>ToBoolean: what \<^verbatim>\<open>!v\<close>, \<^verbatim>\<open>a && b\<close> and \<^verbatim>\<open>a || b\<close> test.\<close>

fun truthy :: "jsval \<Rightarrow> bool" where
  "truthy JUndefined = False"
| "truthy JNull = False"
| "truthy (JBool b) = b"
| "truthy (JNum n) = (n \<noteq> NaN \<and> n \<noteq> Fin 0)"
| "truthy (JStr s) = (s \<noteq> [])"
| "truthy (JArray xs) = True"
| "truthy (JObject kvs) = True"

text \<open>\<^verbatim>\<open>a || b\<close>\<close>

definition js_or :: "jsval \<Rightarrow> jsval \<Rightarrow> jsval" where
  "js_or a b = (if truthy a then a else b)"

text \<open>
  Converting an object to a primitive calls its \<^verbatim>\<open>toString\<close>. An object parsed from JSON
  inherits a callable one unless it has a property of that name of its own, which is
  never callable: then the conversion throws a TypeError. An array joins the strings of
  its elements, so it throws when one of them does.
\<close>

fun conversion_throws :: "jsval \<Rightarrow> bool" where
  "conversion_throws (JObject kvs) = (''toString'' \<in> set (map fst kvs))"
| "conversion_throws (JArray xs) = (\<exists>x\<in>set xs. conversion_throws x)"
| "conversion_throws v = False"

text \<open>
  \<^verbatim>\<open>Number(v)\<close>, for a value whose conversion does not throw. An object reads as
  \<^verbatim>\<open>[object Object]\<close>, which is NaN. An array reads as the strings of its elements
  joined by commas: the empty array is the empty string, an array of two or more elements
  has a comma and is NaN, and an array of one element reads as that element, where
  \<^verbatim>\<open>null\<close> and \<^verbatim>\<open>undefined\<close> are the empty string, a boolean is a word, and a number
  reads back as itself.
\<close>

fun Number_js :: "jsval \<Rightarrow> jsnum" where
  "Number_js JUndefined = NaN"
| "Number_js JNull = Fin 0"
| "Number_js (JBool b) = Fin (if b then 1 else 0)"
| "Number_js (JNum n) = n"
| "Number_js (JStr s) = StringToNumber s"
| "Number_js (JObject kvs) = NaN"
| "Number_js (JArray []) = Fin 0"
| "Number_js (JArray [JUndefined]) = Fin 0"
| "Number_js (JArray [JNull]) = Fin 0"
| "Number_js (JArray [JBool b]) = NaN"
| "Number_js (JArray [v]) = Number_js v"
| "Number_js (JArray (v # w # vs)) = NaN"

text \<open>\<^verbatim>\<open>n || 0\<close> on a number: NaN and 0 are the falsy numbers.\<close>

definition number_or_zero :: "jsnum \<Rightarrow> jsnum" where
  "number_or_zero n = (if n = NaN \<or> n = Fin 0 then Fin 0 else n)"


section \<open>Configuration, session and provider\<close>

text \<open>
  \<^verbatim>\<open>coze_oauth_config.json\<close> as \<^verbatim>\<open>loadConfig\<close> returns it: the four required fields, and
  the two optional fallback tokens, which are whatever the JSON file holds.
\<close>

record config =
  client_type :: string
  client_id :: string
  coze_www_base :: string
  coze_api_base :: string
  websdk_pat :: jsval
  pat :: jsval

definition REDIRECT_URI :: string where
  "REDIRECT_URI = ''http://127.0.0.1:8080/callback''"

text \<open>The object the provider SDK resolves to on a successful exchange or refresh.\<close>

record provider_token =
  p_access_token :: jsval
  p_refresh_token :: jsval
  p_expires_in :: jsval

text \<open>\<^verbatim>\<open>ctx.session.oauth\<close>, as both writers build it.\<close>

record oauth_record =
  token_type :: string
  access_token :: jsval
  refresh_token :: jsval
  expires_in :: jsval
  expire_at :: jsnum

text \<open>
  \<^verbatim>\<open>ctx.session\<close>: the cookie-backed object. A property that was never assigned is
  \<open>None\<close>.
\<close>

record session =
  codeVerifier :: "string option"
  oauth :: "oauth_record option"

definition empty_session :: session where
  "empty_session = \<lparr>codeVerifier = None, oauth = None\<rparr>"

text \<open>
  The outbound calls to the provider SDK, with the arguments the handlers pass. The
  provider itself is a parameter of the handlers: a function from the call to the message
  of the error it throws (\<open>Inl\<close>) or to the token it resolves to (\<open>Inr\<close>).
\<close>

datatype provider_call =
    GetPKCEOAuthToken string string jsval string string
  | RefreshOAuthToken string string jsval

type_synonym provider = "provider_call \<Rightarrow> string + provider_token"

text \<open>
  What a handler leaves in \<^verbatim>\<open>ctx.body\<close>. The HTML templates and the locale-dependent
  date string of the token pages are not part of the model: a page is the template's name
  with the variables handed to \<^verbatim>\<open>renderTemplate\<close>. The two \<open>RuntimeError\<close> bodies are an
  error page and an error object whose message is the given prefix followed by the message
  of a TypeError of the runtime.
\<close>

datatype body =
    ErrorPage string
  | RuntimeErrorPage string
  | CallbackPage string jsval jsval jsval
  | ErrorJson string
  | RuntimeErrorJson string
  | TokenJson string jsval
  | RefreshJson string jsval jsval jsval
  | OkJson
  | Redirect string

text \<open>
  The outcome of one request: the HTTP status, the body, the session as the handler
  leaves it, and the provider calls it made, in order.
\<close>

record response =
  status :: nat
  body :: body
  session_out :: session
  calls :: "provider_call list"


section \<open>The handlers\<close>

text \<open>
  The record both \<^verbatim>\<open>/callback\<close> and \<^verbatim>\<open>/refresh_token\<close> store; \<open>now\<close> is \<^verbatim>\<open>Date.now()\<close>, a
  whole number of milliseconds, and \<open>expire_at\<close> is
  \<^verbatim>\<open>Date.now() + (Number(oauthToken.expires_in) || 0) * 1000\<close>.
\<close>

definition make_oauth :: "int \<Rightarrow> provider_token \<Rightarrow> oauth_record" where
  "make_oauth now tok =
     \<lparr>token_type = ''pkce'',
      access_token = p_access_token tok,
      refresh_token = p_refresh_token tok,
      expires_in = p_expires_in tok,
      expire_at =
        fadd (Fin (of_int now))
          (fmul (number_or_zero (Number_js (p_expires_in tok))) (Fin 1000))\<rparr>"

text \<open>
  \<^verbatim>\<open>GET /login\<close>. \<open>auth\<close> is what \<^verbatim>\<open>getPKCEAuthenticationUrl\<close> does: it throws (\<open>Inl\<close> the
  message) or resolves to the verifier and the authorize URL.
\<close>

definition login_handler :: "string + (string \<times> string) \<Rightarrow> session \<Rightarrow> response" where
  "login_handler auth s =
     (case auth of
        Inr (verifier, url) \<Rightarrow>
          \<lparr>status = 302, body = Redirect url,
           session_out = s\<lparr>codeVerifier := Some verifier\<rparr>, calls = []\<rparr>
      | Inl msg \<Rightarrow>
          \<lparr>status = 500, body = ErrorPage (''Failed to generate authorization URL: '' @ msg),
           session_out = s, calls = []\<rparr>)"

text \<open>
  \<^verbatim>\<open>GET /callback\<close>; \<open>code\<close> is \<^verbatim>\<open>ctx.query.code\<close>. When the provider resolves to a token
  whose \<open>expires_in\<close> cannot be converted, \<^verbatim>\<open>Number\<close> throws while the record is being
  built, before the session is assigned. When its \<open>access_token\<close> or \<open>refresh_token\<close>
  cannot be converted, \<^verbatim>\<open>renderTemplate\<close> throws on the replacement string, after the
  session was assigned. The handler's \<^verbatim>\<open>catch\<close> answers 500 in both cases.
\<close>

definition callback_handler ::
  "provider \<Rightarrow> config \<Rightarrow> int \<Rightarrow> jsval \<Rightarrow> session \<Rightarrow> response" where
  "callback_handler prov cfg now code s =
     (if \<not> truthy code then
        \<lparr>status = 400,
         body = ErrorPage ''Authorization failed: No authorization code received'',
         session_out = s, calls = []\<rparr>
      else
        (case codeVerifier s of
           None \<Rightarrow>
             \<lparr>status = 400, body = ErrorPage ''Authorization failed: No code verifier found'',
              session_out = s, calls = []\<rparr>
         | Some verifier \<Rightarrow>
             if verifier = [] then
               \<lparr>status = 400, body = ErrorPage ''Authorization failed: No code verifier found'',
                session_out = s, calls = []\<rparr>
             else
               (let call = GetPKCEOAuthToken (coze_api_base cfg) (client_id cfg) code
                             REDIRECT_URI verifier
                in case prov call of
                     Inr tok \<Rightarrow>
                       if conversion_throws (p_expires_in tok) then
                         \<lparr>status = 500,
                          body = RuntimeErrorPage ''Failed to get access token: '',
                          session_out = s, calls = [call]\<rparr>
                       else if conversion_throws (p_access_token tok)
                               \<or> conversion_throws (p_refresh_token tok) then
                         \<lparr>status = 500,
                          body = RuntimeErrorPage ''Failed to get access token: '',
                          session_out = s\<lparr>oauth := Some (make_oauth now tok)\<rparr>,
                          calls = [call]\<rparr>
                       else
                         \<lparr>status = 200,
                          body = CallbackPage ''pkce'' (p_access_token tok)
                                   (p_refresh_token tok) (p_expires_in tok),
                          session_out = s\<lparr>oauth := Some (make_oauth now tok)\<rparr>,
                          calls = [call]\<rparr>
                   | Inl msg \<Rightarrow>
                       \<lparr>status = 500,
                        body = ErrorPage (''Failed to get access token: '' @ msg),
                        session_out = s, calls = [call]\<rparr>)))"

text \<open>
  \<^verbatim>\<open>POST /refresh_token\<close>; \<open>body_token\<close> is \<^verbatim>\<open>(ctx.request.body || {}).refresh_token\<close>.
  \<open>resolve_refresh_token\<close> is the value of the local \<^verbatim>\<open>refresh_token\<close> after the fallback
  to the session. When the provider resolves to a token whose \<open>expires_in\<close> cannot be
  converted, \<^verbatim>\<open>timestampToDatetime\<close> throws on its product before the session is assigned,
  and the handler's \<^verbatim>\<open>catch\<close> answers 500.
\<close>

definition resolve_refresh_token :: "jsval \<Rightarrow> session \<Rightarrow> jsval" where
  "resolve_refresh_token body_token s =
     (if \<not> truthy body_token then
        (case oauth s of
           Some r \<Rightarrow> if truthy (refresh_token r) then refresh_token r else body_token
         | None \<Rightarrow> body_token)
      else body_token)"

definition refresh_handler ::
  "provider \<Rightarrow> config \<Rightarrow> int \<Rightarrow> jsval \<Rightarrow> session \<Rightarrow> response" where
  "refresh_handler prov cfg now body_token s =
     (let rt = resolve_refresh_token body_token s in
      if \<not> truthy rt then
        \<lparr>status = 401, body = ErrorJson ''No refresh token available. Please re-login.'',
         session_out = s, calls = []\<rparr>
      else
        (let call = RefreshOAuthToken (coze_api_base cfg) (client_id cfg) rt
         in case prov call of
              Inr tok \<Rightarrow>
                if conversion_throws (p_expires_in tok) then
                  \<lparr>status = 500, body = RuntimeErrorJson ''Failed to refresh token: '',
                   session_out = s, calls = [call]\<rparr>
                else
                  \<lparr>status = 200,
                   body = RefreshJson ''pkce'' (p_access_token tok) (p_refresh_token tok)
                            (p_expires_in tok),
                   session_out = s\<lparr>oauth := Some (make_oauth now tok)\<rparr>,
                   calls = [call]\<rparr>
            | Inl msg \<Rightarrow>
                \<lparr>status = 500, body = ErrorJson (''Failed to refresh token: '' @ msg),
                 session_out = s, calls = [call]\<rparr>))"

text \<open>
  \<^verbatim>\<open>GET /token\<close>; \<open>env_pat\<close> is \<^verbatim>\<open>process.env.COZE_PAT\<close>, a string when the variable is
  set. \<open>fallback_pat\<close> is the operand of \<^verbatim>\<open>.trim()\<close>. A truthy operand that is not a
  string has no \<^verbatim>\<open>trim\<close> method: the TypeError is caught by the handler's own
  \<^verbatim>\<open>catch\<close>, which answers 500 with the runtime's message after a fixed prefix.
\<close>

definition env_value :: "string option \<Rightarrow> jsval" where
  "env_value e = (case e of None \<Rightarrow> JUndefined | Some v \<Rightarrow> JStr v)"

definition fallback_pat :: "string option \<Rightarrow> config \<Rightarrow> jsval" where
  "fallback_pat env_pat cfg =
     js_or (js_or (js_or (env_value env_pat) (websdk_pat cfg)) (pat cfg)) (JStr [])"

definition not_configured :: string where
  "not_configured =
     ''Public PAT not configured. Set env COZE_PAT or websdk_pat in coze_oauth_config.json.''"

definition token_fallback :: "string option \<Rightarrow> config \<Rightarrow> session \<Rightarrow> response" where
  "token_fallback env_pat cfg s =
     (case fallback_pat env_pat cfg of
        JStr raw \<Rightarrow>
          if trim raw \<noteq> [] then
            \<lparr>status = 200, body = TokenJson ''pat'' (JStr (trim raw)),
             session_out = s, calls = []\<rparr>
          else
            \<lparr>status = 401, body = ErrorJson not_configured, session_out = s, calls = []\<rparr>
      | _ \<Rightarrow>
          \<lparr>status = 500, body = RuntimeErrorJson ''Failed to provide token: '',
           session_out = s, calls = []\<rparr>)"

definition token_handler :: "string option \<Rightarrow> config \<Rightarrow> session \<Rightarrow> response" where
  "token_handler env_pat cfg s =
     (case oauth s of
        Some r \<Rightarrow>
          if truthy (access_token r) then
            \<lparr>status = 200,
             body = TokenJson (if token_type r \<noteq> [] then token_type r else ''pkce'')
                      (access_token r),
             session_out = s, calls = []\<rparr>
          else token_fallback env_pat cfg s
      | None \<Rightarrow> token_fallback env_pat cfg s)"

text \<open>
  \<^verbatim>\<open>POST /logout\<close>: \<^verbatim>\<open>ctx.session = null\<close> makes the session middleware drop the cookie,
  so the next request of this browser starts from the empty session.
\<close>

definition logout_handler :: "session \<Rightarrow> response" where
  "logout_handler s = \<lparr>status = 200, body = OkJson, session_out = empty_session, calls = []\<rparr>"


section \<open>The sessions the server can hold\<close>

text \<open>
  The cookie is signed with a key drawn at process start, so every session a handler
  receives is the empty one or one that an earlier handler of this process left.
\<close>

inductive reachable :: "session \<Rightarrow> bool" where
  fresh: "reachable empty_session"
| login: "reachable s \<Longrightarrow> reachable (session_out (login_handler auth s))"
| callback: "reachable s \<Longrightarrow> reachable (session_out (callback_handler prov cfg now code s))"
| refresh: "reachable s \<Longrightarrow> reachable (session_out (refresh_handler prov cfg now bt s))"
| token: "reachable s \<Longrightarrow> reachable (session_out (token_handler env_pat cfg s))"
| logout: "reachable s \<Longrightarrow> reachable (session_out (logout_handler s))"


section \<open>Reading the resolution policy\<close>

text \<open>A provider token all of whose fields \<^verbatim>\<open>/callback\<close> can convert.\<close>

definition convertible :: "provider_token \<Rightarrow> bool" where
  "convertible tok =
     (\<not> conversion_throws (p_expires_in tok) \<and> \<not> conversion_throws (p_access_token tok)
      \<and> \<not> conversion_throws (p_refresh_token tok))"

text \<open>
  The session token of the policy's first rule: the stored \<open>access_token\<close>, when the
  session holds a record and the token is present.
\<close>

definition session_access_token :: "session \<Rightarrow> jsval option" where
  "session_access_token s =
     (case oauth s of
        None \<Rightarrow> None
      | Some r \<Rightarrow> if truthy (access_token r) then Some (access_token r) else None)"


section \<open>Sample inputs\<close>

definition sample_config :: config where
  "sample_config =
     \<lparr>client_type = ''pkce'', client_id = ''client-1'',
      coze_www_base = ''https://www.coze.cn'', coze_api_base = ''https://api.coze.cn'',
      websdk_pat = JStr ''  pat_file  '', pat = JUndefined\<rparr>"

definition blank_config :: config where
  "blank_config =
     \<lparr>client_type = ''pkce'', client_id = ''client-1'',
      coze_www_base = ''https://www.coze.cn'', coze_api_base = ''https://api.coze.cn'',
      websdk_pat = JStr ''   '', pat = JStr ''pat_low''\<rparr>"

definition numeric_config :: config where
  "numeric_config =
     \<lparr>client_type = ''pkce'', client_id = ''client-1'',
      coze_www_base = ''https://www.coze.cn'', coze_api_base = ''https://api.coze.cn'',
      websdk_pat = JNum (Fin 123), pat = JStr ''pat_low''\<rparr>"

definition sample_token :: provider_token where
  "sample_token =
     \<lparr>p_access_token = JStr ''at-1'', p_refresh_token = JStr ''rt-1'',
      p_expires_in = JNum (Fin 3600)\<rparr>"

definition accepting_provider :: provider where
  "accepting_provider call = Inr sample_token"

definition rejecting_provider :: provider where
  "rejecting_provider call = Inl ''invalid_grant''"





definition pending_session :: session where
  "pending_session = \<lparr>codeVerifier = Some ''verifier-1'', oauth = None\<rparr>"

definition authenticated_session :: session where
  "authenticated_session =
     \<lparr>codeVerifier = Some ''verifier-1'',
      oauth = Some \<lparr>token_type = ''pkce'', access_token = JStr ''at-1'',
                    refresh_token = JStr ''rt-1'', expires_in = JNum (Fin 3600),
                    expire_at = Fin 3601000\<rparr>\<rparr>"


section \<open>Auxiliary facts\<close>

subsection \<open>Doubles\<close>

text \<open>A number whose scaled magnitude is whole is a double, below the overflow threshold.\<close>

lemma round_half_even_int: "round_half_even (of_int k) = k"
  by (simp add: round_half_even_def)

lemma round_double_exact:
  assumes "x \<noteq> 0"
    and "\<bar>x\<bar> / 2 powi (max (ilog2 \<bar>x\<bar> - 52) (- 1074)) = of_int k"
    and "\<bar>x\<bar> < 2 powi 1024"
  shows "round_double x = Fin x"
proof -
  define q where "q = max (ilog2 \<bar>x\<bar> - 52) (- 1074)"
  have nz: "(2::rat) powi q \<noteq> 0" by simp
  from assms(2) have "of_int k * (2::rat) powi q = \<bar>x\<bar>"
    unfolding q_def[symmetric] using nz by (simp add: field_simps)
  then have y: "of_int (round_half_even (\<bar>x\<bar> / 2 powi q)) * (2::rat) powi q = \<bar>x\<bar>"
    using assms(2) unfolding q_def[symmetric] by (simp add: round_half_even_int)
  have "round_double x = Fin (if 0 < x then \<bar>x\<bar> else - \<bar>x\<bar>)"
    unfolding round_double_def Let_def q_def[symmetric] y
    using assms(1,3) by (simp only: if_False not_le[symmetric] if_True)
  also have "(if 0 < x then \<bar>x\<bar> else - \<bar>x\<bar>) = x" by simp
  finally show ?thesis .
qed

text \<open>Every integer of magnitude at most \<open>2\<^sup>5\<^sup>3\<close> is a double.\<close>

lemma round_double_int:
  assumes "\<bar>n\<bar> \<le> 2 ^ 53"
  shows "round_double (of_int n) = Fin (of_int n)"
proof (cases "n = 0")
  case True
  then show ?thesis by (simp add: round_double_def)
next
  case False
  define a where "a = \<bar>n\<bar>"
  have a: "0 < a" "a \<le> 2 ^ 53" using False assms by (simp_all add: a_def)
  have absx: "\<bar>of_int n :: rat\<bar> = of_int a" by (simp add: a_def)
  have one: "(1::rat) \<le> of_int a" using a by simp
  have il: "ilog2 (of_int a) = bitlen a - 1" using one by (simp add: ilog2_def)
  define q where "q = max (bitlen a - 1 - 52) (- 1074)"
  have bl: "bitlen a \<le> 54"
    using a by (simp add: bitlen_le_iff_power)
  have "\<exists>k. (of_int a :: rat) / 2 powi q = of_int k"
  proof (cases "bitlen a = 54")
    case True
    then have "2 ^ 53 \<le> a" using bitlen_bounds[OF a(1)] by simp
    with a have a53: "a = 2 ^ 53" by simp
    have "q = 1" using True by (simp add: q_def)
    then have "(of_int a :: rat) / 2 powi q = of_int (2 ^ 52)" by (simp add: a53)
    then show ?thesis by blast
  next
    case False
    with bl have "q \<le> 0" by (simp add: q_def)
    then have "(2::rat) powi q = 1 / 2 ^ nat (- q)"
      by (simp add: power_int_def field_simps)
    then have "(of_int a :: rat) / 2 powi q = of_int (a * 2 ^ nat (- q))" by simp
    then show ?thesis by blast
  qed
  then obtain k where k: "(of_int a :: rat) / 2 powi q = of_int k" by blast
  have small: "(of_int a :: rat) < 2 powi 1024"
  proof -
    have "(of_int a :: rat) \<le> 2 ^ 53" using a(2) by (metis of_int_le_numeral_power_cancel_iff)
    moreover have "(2::rat) ^ 53 < 2 ^ 1024" by (rule power_strict_increasing) simp_all
    moreover have "(2::rat) powi 1024 = 2 ^ 1024" by (simp add: power_int_def)
    ultimately show ?thesis by simp
  qed
  have nzr: "(of_int n :: rat) \<noteq> 0" using False by simp
  show ?thesis
    by (rule round_double_exact[OF nzr, of k]) (simp_all only: absx il q_def[symmetric] k small)
qed

subsection \<open>The stored expiry\<close>




subsection \<open>The token route\<close>

text \<open>Trimming leaves nothing exactly when the string is white space only.\<close>

lemma trim_empty_iff: "trim raw = [] \<longleftrightarrow> (\<forall>c\<in>set raw. is_space c)"
proof
  assume "trim raw = []"
  then have all: "\<forall>c\<in>set (dropWhile is_space raw). is_space c"
    by (simp add: trim_def)
  have "dropWhile is_space raw = []"
  proof (rule ccontr)
    assume ne: "dropWhile is_space raw \<noteq> []"
    then have "\<not> is_space (hd (dropWhile is_space raw))" by (rule hd_dropWhile)
    moreover from ne have "hd (dropWhile is_space raw) \<in> set (dropWhile is_space raw)"
      by simp
    ultimately show False using all by blast
  qed
  then show "\<forall>c\<in>set raw. is_space c" by simp
next
  assume "\<forall>c\<in>set raw. is_space c"
  then have d: "dropWhile is_space raw = []" by simp
  show "trim raw = []" unfolding trim_def d by simp
qed

text \<open>\<^verbatim>\<open>GET /token\<close> leaves the session and calls no provider.\<close>

lemma token_fallback_frame:
  "session_out (token_fallback env_pat cfg s) = s \<and> calls (token_fallback env_pat cfg s) = []"
  by (simp add: token_fallback_def split: jsval.splits)

lemma token_handler_frame:
  "session_out (token_handler env_pat cfg s) = s"
  by (simp add: token_handler_def token_fallback_frame split: option.splits)

text \<open>Every record a reachable session holds was built by \<open>make_oauth\<close>.\<close>

lemma make_oauth_token_type: "token_type (make_oauth now tok) = ''pkce''"
  by (simp add: make_oauth_def)

lemma reachable_token_type:
  "reachable s \<Longrightarrow> oauth s = Some r \<Longrightarrow> token_type r = ''pkce''"
proof (induction arbitrary: r rule: reachable.induct)
  case fresh
  then show ?case by (simp add: empty_session_def)
next
  case (login s auth)
  then show ?case by (auto simp: login_handler_def split: sum.splits prod.splits)
next
  case (callback s prov cfg now code)
  then show ?case
    by (auto simp: callback_handler_def Let_def make_oauth_token_type
        split: if_splits option.splits sum.splits)
next
  case (refresh s prov cfg now bt)
  then show ?case
    by (auto simp: refresh_handler_def Let_def make_oauth_token_type
        split: if_splits sum.splits)
next
  case (token s env_pat cfg)
  then show ?case by (simp add: token_handler_frame)
next
  case (logout s)
  then show ?case by (simp add: logout_handler_def empty_session_def)
qed

text \<open>The \<^verbatim>\<open>||\<close> chain is the search for the first present source.\<close>

lemma fallback_pat_find:
  "fallback_pat env_pat cfg =
     (case find truthy [env_value env_pat, websdk_pat cfg, pat cfg] of
        None \<Rightarrow> JStr [] | Some v \<Rightarrow> v)"
  by (simp add: fallback_pat_def js_or_def)

lemma token_fallback_none:
  assumes "find truthy [env_value env_pat, websdk_pat cfg, pat cfg] = None"
  shows "token_fallback env_pat cfg s =
     \<lparr>status = 401, body = ErrorJson not_configured, session_out = s, calls = []\<rparr>"
proof -
  have "fallback_pat env_pat cfg = JStr []"
    by (simp only: fallback_pat_find assms option.case)
  then show ?thesis by (simp add: token_fallback_def trim_def)
qed

lemma token_fallback_string:
  assumes "find truthy [env_value env_pat, websdk_pat cfg, pat cfg] = Some (JStr raw)"
  shows "token_fallback env_pat cfg s =
     (if \<forall>c\<in>set raw. is_space c then
        \<lparr>status = 401, body = ErrorJson not_configured, session_out = s, calls = []\<rparr>
      else
        \<lparr>status = 200, body = TokenJson ''pat'' (JStr (trim raw)), session_out = s,
         calls = []\<rparr>)"
proof -
  have "fallback_pat env_pat cfg = JStr raw"
    by (simp only: fallback_pat_find assms option.case)
  then show ?thesis
    using trim_empty_iff[of raw] by (simp add: token_fallback_def)
qed

lemma token_fallback_other:
  assumes "find truthy [env_value env_pat, websdk_pat cfg, pat cfg] = Some v"
    and "\<forall>raw. v \<noteq> JStr raw"
  shows "token_fallback env_pat cfg s =
     \<lparr>status = 500, body = RuntimeErrorJson ''Failed to provide token: '', session_out = s,
      calls = []\<rparr>"
proof -
  have "fallback_pat env_pat cfg = v"
    by (simp only: fallback_pat_find assms(1) option.case)
  then show ?thesis using assms(2) by (cases v) (simp_all add: token_fallback_def)
qed

lemma token_handler_anonymous:
  "session_access_token s = None \<Longrightarrow> token_handler env_pat cfg s = token_fallback env_pat cfg s"
  by (auto simp: token_handler_def session_access_token_def split: option.splits if_splits)

section \<open>Properties of the handlers\<close>

text \<open>
  A fallback token can be configured and still not be served. With \<^verbatim>\<open>websdk_pat\<close> blank and
  \<^verbatim>\<open>pat\<close> holding a token, the blank value is the one selected and the answer is 401;
  with \<^verbatim>\<open>websdk_pat\<close> a number and \<^verbatim>\<open>pat\<close> holding a token, the number is selected,
  \<^verbatim>\<open>trim\<close> is not a method of it, and the answer is 500.
\<close>

theorem token_fallback_shadowed_counterexample:
  "session_access_token empty_session = None
   \<and> pat blank_config = JStr ''pat_low''
   \<and> token_handler None blank_config empty_session =
       \<lparr>status = 401, body = ErrorJson not_configured, session_out = empty_session,
        calls = []\<rparr>
   \<and> pat numeric_config = JStr ''pat_low''
   \<and> token_handler None numeric_config empty_session =
       \<lparr>status = 500, body = RuntimeErrorJson ''Failed to provide token: '',
        session_out = empty_session, calls = []\<rparr>"
proof -
  have sp: "is_space CHR '' ''" by (simp add: is_space_def)
  show ?thesis
    by (simp add: session_access_token_def empty_session_def blank_config_def
        numeric_config_def token_handler_def token_fallback_def fallback_pat_def js_or_def
        env_value_def trim_def sp)
qed

text \<open>
  C1, amended. For every session the server can hold, \<^verbatim>\<open>GET /token\<close> resolves
  the token by the first rule that matches. A session record with a present
  \<open>access_token\<close> gives that token with \<open>token_type\<close> \<^verbatim>\<open>pkce\<close>. Otherwise the first
  present value of \<^verbatim>\<open>COZE_PAT\<close>, \<^verbatim>\<open>websdk_pat\<close>, \<^verbatim>\<open>pat\<close> is selected and no later source
  is consulted: when none is present the answer is 401 with the not-configured message;
  when the selected value is a string, the answer is that string trimmed, with
  \<open>token_type\<close> \<^verbatim>\<open>pat\<close>, unless it is white space only, which is 401 again; when the
  selected value is not a string, the answer is 500.
\<close>

theorem token_resolution_policy:
  assumes "reachable s"
  shows "(\<forall>a. session_access_token s = Some a \<longrightarrow>
            token_handler env_pat cfg s =
              \<lparr>status = 200, body = TokenJson ''pkce'' a, session_out = s, calls = []\<rparr>)
    \<and> (session_access_token s = None \<longrightarrow>
          (find truthy [env_value env_pat, websdk_pat cfg, pat cfg] = None \<longrightarrow>
             token_handler env_pat cfg s =
               \<lparr>status = 401, body = ErrorJson not_configured, session_out = s, calls = []\<rparr>)
        \<and> (\<forall>raw. find truthy [env_value env_pat, websdk_pat cfg, pat cfg] = Some (JStr raw) \<longrightarrow>
             token_handler env_pat cfg s =
               (if \<forall>c\<in>set raw. is_space c then
                  \<lparr>status = 401, body = ErrorJson not_configured, session_out = s,
                   calls = []\<rparr>
                else
                  \<lparr>status = 200, body = TokenJson ''pat'' (JStr (trim raw)), session_out = s,
                   calls = []\<rparr>))
        \<and> (\<forall>v. find truthy [env_value env_pat, websdk_pat cfg, pat cfg] = Some v
                 \<and> (\<forall>raw. v \<noteq> JStr raw) \<longrightarrow>
             token_handler env_pat cfg s =
               \<lparr>status = 500, body = RuntimeErrorJson ''Failed to provide token: '',
                session_out = s, calls = []\<rparr>))"
proof (intro conjI allI impI)
  fix a
  assume a: "session_access_token s = Some a"
  then obtain r where r: "oauth s = Some r" "truthy (access_token r)" "a = access_token r"
    by (auto simp: session_access_token_def split: option.splits if_splits)
  from assms r(1) have "token_type r = ''pkce''" by (rule reachable_token_type)
  with r show "token_handler env_pat cfg s =
      \<lparr>status = 200, body = TokenJson ''pkce'' a, session_out = s, calls = []\<rparr>"
    by (simp add: token_handler_def)
next
  assume "session_access_token s = None"
    and "find truthy [env_value env_pat, websdk_pat cfg, pat cfg] = None"
  then show "token_handler env_pat cfg s =
      \<lparr>status = 401, body = ErrorJson not_configured, session_out = s, calls = []\<rparr>"
    by (simp only: token_handler_anonymous token_fallback_none)
next
  fix raw
  assume "session_access_token s = None"
    and "find truthy [env_value env_pat, websdk_pat cfg, pat cfg] = Some (JStr raw)"
  then show "token_handler env_pat cfg s =
      (if \<forall>c\<in>set raw. is_space c then
         \<lparr>status = 401, body = ErrorJson not_configured, session_out = s, calls = []\<rparr>
       else
         \<lparr>status = 200, body = TokenJson ''pat'' (JStr (trim raw)), session_out = s,
          calls = []\<rparr>)"
    by (simp only: token_handler_anonymous token_fallback_string)
next
  fix v
  assume anon: "session_access_token s = None"
    and sel: "find truthy [env_value env_pat, websdk_pat cfg, pat cfg] = Some v
         \<and> (\<forall>raw. v \<noteq> JStr raw)"
  from sel have s1: "find truthy [env_value env_pat, websdk_pat cfg, pat cfg] = Some v"
    and s2: "\<forall>raw. v \<noteq> JStr raw"
    by blast+
  from token_fallback_other[OF s1 s2] anon show "token_handler env_pat cfg s =
      \<lparr>status = 500, body = RuntimeErrorJson ''Failed to provide token: '', session_out = s,
       calls = []\<rparr>"
    by (simp only: token_handler_anonymous)
qed

text \<open>
  The policy on a session left by \<^verbatim>\<open>/login\<close> and \<^verbatim>\<open>/callback\<close>, and on the empty
  session with the file token, with the environment override, with neither, with a blank
  file token and with a numeric one.
\<close>

theorem token_resolution_policy_witness:
  "reachable (session_out (callback_handler accepting_provider sample_config 1000
       (JStr ''code-1'') (session_out (login_handler (Inr (''verifier-1'', ''url-1'')) empty_session))))
   \<and> token_handler (Some ''env_pat'') sample_config
       (session_out (callback_handler accepting_provider sample_config 1000
          (JStr ''code-1'') (session_out (login_handler (Inr (''verifier-1'', ''url-1'')) empty_session))))
     = \<lparr>status = 200, body = TokenJson ''pkce'' (JStr ''at-1''),
        session_out = authenticated_session, calls = []\<rparr>
   \<and> token_handler None sample_config empty_session
     = \<lparr>status = 200, body = TokenJson ''pat'' (JStr ''pat_file''),
        session_out = empty_session, calls = []\<rparr>
   \<and> token_handler (Some ''env_pat'') sample_config empty_session
     = \<lparr>status = 200, body = TokenJson ''pat'' (JStr ''env_pat''),
        session_out = empty_session, calls = []\<rparr>
   \<and> token_handler None (sample_config\<lparr>websdk_pat := JNull\<rparr>) empty_session
     = \<lparr>status = 401, body = ErrorJson not_configured,
        session_out = empty_session, calls = []\<rparr>
   \<and> token_handler None blank_config empty_session
     = \<lparr>status = 401, body = ErrorJson not_configured,
        session_out = empty_session, calls = []\<rparr>
   \<and> token_handler None numeric_config empty_session
     = \<lparr>status = 500, body = RuntimeErrorJson ''Failed to provide token: '',
        session_out = empty_session, calls = []\<rparr>"
proof -
  let ?s = "session_out (callback_handler accepting_provider sample_config 1000
       (JStr ''code-1'') (session_out (login_handler (Inr (''verifier-1'', ''url-1'')) empty_session)))"
  have r0: "reachable empty_session" by (rule reachable.fresh)
  then have "reachable (session_out (login_handler (Inr (''verifier-1'', ''url-1'')) empty_session))"
    by (rule reachable.login)
  then have r: "reachable ?s" by (rule reachable.callback)
  have e3600: "round_double 3600000 = Fin 3600000"
    using round_double_int[of 3600000] by simp
  have e3601: "round_double 3601000 = Fin 3601000"
    using round_double_int[of 3601000] by simp
  have eq: "?s = authenticated_session"
    by (simp add: callback_handler_def login_handler_def empty_session_def
        accepting_provider_def sample_token_def make_oauth_def number_or_zero_def
        authenticated_session_def e3600 e3601)
  have sp: "is_space CHR '' ''" "\<not> is_space CHR ''p''" "\<not> is_space CHR ''e''"
    "\<not> is_space CHR ''t''"
    by (simp_all add: is_space_def)
  have a1: "session_access_token ?s = Some (JStr ''at-1'')"
    by (simp add: eq session_access_token_def authenticated_session_def)
  have a0: "session_access_token empty_session = None"
    by (simp add: session_access_token_def empty_session_def)
  have 1: "token_handler (Some ''env_pat'') sample_config ?s
     = \<lparr>status = 200, body = TokenJson ''pkce'' (JStr ''at-1''),
        session_out = authenticated_session, calls = []\<rparr>"
    using token_resolution_policy[OF r, of "Some ''env_pat''" sample_config] a1
    by (simp add: eq)
  have 2: "token_handler None sample_config empty_session
     = \<lparr>status = 200, body = TokenJson ''pat'' (JStr ''pat_file''),
        session_out = empty_session, calls = []\<rparr>"
    using token_resolution_policy[OF r0, of None sample_config] a0
    by (simp add: env_value_def sample_config_def trim_def sp)
  have 3: "token_handler (Some ''env_pat'') sample_config empty_session
     = \<lparr>status = 200, body = TokenJson ''pat'' (JStr ''env_pat''),
        session_out = empty_session, calls = []\<rparr>"
    using token_resolution_policy[OF r0, of "Some ''env_pat''" sample_config] a0
    by (simp add: env_value_def sample_config_def trim_def sp)
  have 4: "token_handler None (sample_config\<lparr>websdk_pat := JNull\<rparr>) empty_session
     = \<lparr>status = 401, body = ErrorJson not_configured,
        session_out = empty_session, calls = []\<rparr>"
    using token_resolution_policy[OF r0, of None "sample_config\<lparr>websdk_pat := JNull\<rparr>"] a0
    by (simp add: env_value_def sample_config_def)
  have 5: "token_handler None blank_config empty_session
     = \<lparr>status = 401, body = ErrorJson not_configured,
        session_out = empty_session, calls = []\<rparr>"
    using token_resolution_policy[OF r0, of None blank_config] a0
    by (simp add: env_value_def blank_config_def sp)
  have 6: "token_handler None numeric_config empty_session
     = \<lparr>status = 500, body = RuntimeErrorJson ''Failed to provide token: '',
        session_out = empty_session, calls = []\<rparr>"
    using token_resolution_policy[OF r0, of None numeric_config] a0
    by (simp add: env_value_def numeric_config_def)
  from r 1 2 3 4 5 6 show ?thesis by blast
qed

text \<open>
  C2. \<^verbatim>\<open>GET /callback\<close> checks its two preconditions in order, each with its own reason
  after the prefix \<^verbatim>\<open>Authorization failed: \<close>: without a \<open>code\<close> the answer is 400
  "No authorization code received"; with a \<open>code\<close> but no verifier in the session it is
  400 "No code verifier found". In both cases no provider call is made and the session is
  left as it was.
\<close>

theorem callback_preconditions:
  "(\<not> truthy code \<longrightarrow>
      callback_handler prov cfg now code s =
        \<lparr>status = 400,
         body = ErrorPage (''Authorization failed: '' @ ''No authorization code received''),
         session_out = s, calls = []\<rparr>)
   \<and> (truthy code \<and> (codeVerifier s = None \<or> codeVerifier s = Some []) \<longrightarrow>
      callback_handler prov cfg now code s =
        \<lparr>status = 400,
         body = ErrorPage (''Authorization failed: '' @ ''No code verifier found''),
         session_out = s, calls = []\<rparr>)"
  by (auto simp: callback_handler_def)

text \<open>Both precondition failures on concrete requests.\<close>

theorem callback_preconditions_witness:
  "callback_handler accepting_provider sample_config 1000 JUndefined pending_session =
     \<lparr>status = 400,
      body = ErrorPage ''Authorization failed: No authorization code received'',
      session_out = pending_session, calls = []\<rparr>
   \<and> callback_handler accepting_provider sample_config 1000 (JStr ''code-1'')
       empty_session =
     \<lparr>status = 400, body = ErrorPage ''Authorization failed: No code verifier found'',
      session_out = empty_session, calls = []\<rparr>"
  using callback_preconditions[where code = JUndefined and prov = accepting_provider and cfg = sample_config and now = 1000
      and s = pending_session]
    callback_preconditions[where code = "JStr ''code-1''" and prov = accepting_provider and cfg = sample_config and now = 1000
      and s = empty_session]
  by (simp add: empty_session_def)

text \<open>
  The verifier is not consumed by \<^verbatim>\<open>/callback\<close>: on a session that holds
  \<^verbatim>\<open>verifier-1\<close>, with a code, the session still holds \<^verbatim>\<open>verifier-1\<close> after the handler
  returns, both when the provider rejects the exchange and when it accepts it.
\<close>

theorem callback_verifier_consumed_counterexample:
  "codeVerifier (session_out (callback_handler rejecting_provider sample_config 1000
       (JStr ''code-1'') pending_session)) = Some ''verifier-1''
   \<and> codeVerifier (session_out (callback_handler accepting_provider sample_config 1000
       (JStr ''code-1'') pending_session)) = Some ''verifier-1''"
  by (simp add: callback_handler_def pending_session_def rejecting_provider_def
      accepting_provider_def sample_token_def)

text \<open>
  C3, amended. For every callback invocation, whatever its outcome, the
  session's \<open>codeVerifier\<close> after the handler returns is the one it held before: the
  handler never removes or replaces it. When the exchange is reached, the provider is
  called with the code and that verifier, and a retried callback on the resulting
  session sends the same code and verifier to the provider again. The retry is answered
  200 exactly when the provider resolves that call to a token the handler can convert,
  and 500 exactly when it does not: the handler itself never rejects a retry.
\<close>

theorem callback_keeps_verifier:
  "codeVerifier (session_out (callback_handler prov cfg now code s)) = codeVerifier s
   \<and> (truthy code \<and> codeVerifier s = Some v \<and> v \<noteq> [] \<longrightarrow>
        calls (callback_handler prov cfg now code s) =
          [GetPKCEOAuthToken (coze_api_base cfg) (client_id cfg) code REDIRECT_URI v]
        \<and> calls (callback_handler prov' cfg now' code
                   (session_out (callback_handler prov cfg now code s))) =
          [GetPKCEOAuthToken (coze_api_base cfg) (client_id cfg) code REDIRECT_URI v]
        \<and> (status (callback_handler prov' cfg now' code
                     (session_out (callback_handler prov cfg now code s))) = 200
             \<longleftrightarrow> (\<exists>tok. prov' (GetPKCEOAuthToken (coze_api_base cfg) (client_id cfg) code
                              REDIRECT_URI v) = Inr tok
                        \<and> convertible tok))
        \<and> (status (callback_handler prov' cfg now' code
                     (session_out (callback_handler prov cfg now code s))) = 500
             \<longleftrightarrow> \<not> (\<exists>tok. prov' (GetPKCEOAuthToken (coze_api_base cfg) (client_id cfg) code
                              REDIRECT_URI v) = Inr tok
                        \<and> convertible tok)))"
proof -
  have keep: "codeVerifier (session_out (callback_handler prov cfg now code s)) =
      codeVerifier s" for prov now s
    by (simp add: callback_handler_def Let_def split: option.splits sum.splits)
  have sent: "calls (callback_handler prov cfg now code s) =
      [GetPKCEOAuthToken (coze_api_base cfg) (client_id cfg) code REDIRECT_URI v]"
    if "truthy code" "codeVerifier s = Some v" "v \<noteq> []" for prov now s
    using that by (simp add: callback_handler_def Let_def split: sum.splits)
  have ok: "status (callback_handler prov cfg now code s) = 200
      \<longleftrightarrow> (\<exists>tok. prov (GetPKCEOAuthToken (coze_api_base cfg) (client_id cfg) code
                     REDIRECT_URI v) = Inr tok \<and> convertible tok)"
    if "truthy code" "codeVerifier s = Some v" "v \<noteq> []" for prov now s
    using that by (auto simp: callback_handler_def Let_def convertible_def split: sum.splits)
  have ko: "status (callback_handler prov cfg now code s) = 500
      \<longleftrightarrow> \<not> (\<exists>tok. prov (GetPKCEOAuthToken (coze_api_base cfg) (client_id cfg) code
                     REDIRECT_URI v) = Inr tok \<and> convertible tok)"
    if "truthy code" "codeVerifier s = Some v" "v \<noteq> []" for prov now s
    using that by (auto simp: callback_handler_def Let_def convertible_def split: sum.splits)
  show ?thesis using keep sent ok ko by simp
qed

text \<open>
  A rejected exchange followed by a retry with the same code: the retry succeeds when the
  provider accepts it and fails when the provider rejects it again.
\<close>

theorem callback_keeps_verifier_witness:
  "codeVerifier (session_out (callback_handler rejecting_provider sample_config 1000
       (JStr ''code-1'') pending_session)) = Some ''verifier-1''
   \<and> calls (callback_handler accepting_provider sample_config 2000 (JStr ''code-1'')
        (session_out (callback_handler rejecting_provider sample_config 1000
           (JStr ''code-1'') pending_session))) =
       [GetPKCEOAuthToken ''https://api.coze.cn'' ''client-1'' (JStr ''code-1'')
          ''http://127.0.0.1:8080/callback'' ''verifier-1'']
   \<and> status (callback_handler accepting_provider sample_config 2000 (JStr ''code-1'')
        (session_out (callback_handler rejecting_provider sample_config 1000
           (JStr ''code-1'') pending_session))) = 200
   \<and> status (callback_handler rejecting_provider sample_config 2000 (JStr ''code-1'')
        (session_out (callback_handler rejecting_provider sample_config 1000
           (JStr ''code-1'') pending_session))) = 500"
proof -
  let ?call = "GetPKCEOAuthToken (coze_api_base sample_config) (client_id sample_config)
      (JStr ''code-1'') REDIRECT_URI ''verifier-1''"
  have pre: "truthy (JStr ''code-1'') \<and> codeVerifier pending_session = Some ''verifier-1''
      \<and> ''verifier-1'' \<noteq> []"
    by (simp add: pending_session_def)
  have call: "?call = GetPKCEOAuthToken ''https://api.coze.cn'' ''client-1'' (JStr ''code-1'')
      ''http://127.0.0.1:8080/callback'' ''verifier-1''"
    by (simp add: sample_config_def REDIRECT_URI_def)
  have acc: "\<exists>tok. accepting_provider ?call = Inr tok \<and> convertible tok"
    by (simp add: accepting_provider_def sample_token_def convertible_def)
  have rej: "\<not> (\<exists>tok. rejecting_provider ?call = Inr tok \<and> convertible tok)"
    by (simp add: rejecting_provider_def)
  have v: "codeVerifier pending_session = Some ''verifier-1''"
    by (simp add: pending_session_def)
  note a = callback_keeps_verifier[where prov = rejecting_provider
      and cfg = sample_config and now = 1000 and code = "JStr ''code-1''"
      and s = pending_session and v = "''verifier-1''"
      and prov' = accepting_provider and now' = 2000]
  note b = callback_keeps_verifier[where prov = rejecting_provider
      and cfg = sample_config and now = 1000 and code = "JStr ''code-1''"
      and s = pending_session and v = "''verifier-1''"
      and prov' = rejecting_provider and now' = 2000]
  from a b pre acc rej show ?thesis
    unfolding call v by blast
qed

text \<open>
  C4. \<^verbatim>\<open>POST /refresh_token\<close> resolves the refresh token as the value supplied in the
  body when it is present, otherwise as the session record's \<open>refresh_token\<close>: that is
  the token the provider is called with. When neither exists the answer is 401 with the
  message "No refresh token available. Please re-login.", no provider call is made and
  the session is left as it was.
\<close>

theorem refresh_token_resolution:
  "(truthy bt \<longrightarrow>
      calls (refresh_handler prov cfg now bt s) =
        [RefreshOAuthToken (coze_api_base cfg) (client_id cfg) bt])
   \<and> (\<not> truthy bt \<and> oauth s = Some r \<and> truthy (refresh_token r) \<longrightarrow>
      calls (refresh_handler prov cfg now bt s) =
        [RefreshOAuthToken (coze_api_base cfg) (client_id cfg) (refresh_token r)])
   \<and> (\<not> truthy bt \<and> (\<forall>r'. oauth s = Some r' \<longrightarrow> \<not> truthy (refresh_token r')) \<longrightarrow>
      refresh_handler prov cfg now bt s =
        \<lparr>status = 401, body = ErrorJson ''No refresh token available. Please re-login.'',
         session_out = s, calls = []\<rparr>)"
  by (auto simp: refresh_handler_def resolve_refresh_token_def Let_def
      split: sum.splits option.splits)

text \<open>An explicit token, the session's token, and neither.\<close>

theorem refresh_token_resolution_witness:
  "calls (refresh_handler accepting_provider sample_config 1000 (JStr ''rt-body'')
       authenticated_session) =
     [RefreshOAuthToken ''https://api.coze.cn'' ''client-1'' (JStr ''rt-body'')]
   \<and> calls (refresh_handler accepting_provider sample_config 1000 JUndefined
       authenticated_session) =
     [RefreshOAuthToken ''https://api.coze.cn'' ''client-1'' (JStr ''rt-1'')]
   \<and> refresh_handler accepting_provider sample_config 1000 JUndefined empty_session =
     \<lparr>status = 401, body = ErrorJson ''No refresh token available. Please re-login.'',
      session_out = empty_session, calls = []\<rparr>"
  using refresh_token_resolution[where bt = "JStr ''rt-body''" and prov = accepting_provider and cfg = sample_config and now = 1000
      and s = authenticated_session]
    refresh_token_resolution[where bt = JUndefined and prov = accepting_provider and cfg = sample_config and now = 1000
      and s = authenticated_session
      and r = "\<lparr>token_type = ''pkce'', access_token = JStr ''at-1'',
                 refresh_token = JStr ''rt-1'', expires_in = JNum (Fin 3600),
                 expire_at = Fin 3601000\<rparr>"]
    refresh_token_resolution[where bt = JUndefined and prov = accepting_provider and cfg = sample_config and now = 1000
      and s = empty_session]
  by (simp add: authenticated_session_def sample_config_def empty_session_def)

text \<open>
  C5. When the provider call of \<^verbatim>\<open>POST /refresh_token\<close> fails with message \<open>msg\<close>, the
  answer is 500 with the provider's message after the prefix
  \<^verbatim>\<open>Failed to refresh token: \<close>, and the session the handler leaves is the session it
  received: the stored oauth record is untouched.
\<close>

theorem refresh_failure_nondestructive:
  assumes "calls (refresh_handler prov cfg now bt s) = [c]" and "prov c = Inl msg"
  shows "status (refresh_handler prov cfg now bt s) = 500
    \<and> body (refresh_handler prov cfg now bt s) =
        ErrorJson (''Failed to refresh token: '' @ msg)
    \<and> session_out (refresh_handler prov cfg now bt s) = s"
  using assms
  by (auto simp: refresh_handler_def Let_def split: if_splits sum.splits)

text \<open>A rejected refresh on an authenticated session.\<close>

theorem refresh_failure_nondestructive_witness:
  "calls (refresh_handler rejecting_provider sample_config 1000 JUndefined
       authenticated_session) =
     [RefreshOAuthToken ''https://api.coze.cn'' ''client-1'' (JStr ''rt-1'')]
   \<and> status (refresh_handler rejecting_provider sample_config 1000 JUndefined
       authenticated_session) = 500
   \<and> body (refresh_handler rejecting_provider sample_config 1000 JUndefined
       authenticated_session) = ErrorJson ''Failed to refresh token: invalid_grant''
   \<and> session_out (refresh_handler rejecting_provider sample_config 1000 JUndefined
       authenticated_session) = authenticated_session"
proof -
  let ?c = "RefreshOAuthToken ''https://api.coze.cn'' ''client-1'' (JStr ''rt-1'')"
  have c: "calls (refresh_handler rejecting_provider sample_config 1000 JUndefined
       authenticated_session) = [?c]"
    by (simp add: refresh_handler_def resolve_refresh_token_def authenticated_session_def
        rejecting_provider_def sample_config_def Let_def)
  have p: "rejecting_provider ?c = Inl ''invalid_grant''"
    by (simp add: rejecting_provider_def)
  from refresh_failure_nondestructive[OF c p] c show ?thesis by simp
qed

subsection \<open>Successful exchanges\<close>







text \<open>
  C7. \<^verbatim>\<open>GET /token\<close> is a pure read: in every branch (session token, fallback token, 401,
  and the 500 of the handler's own catch) the session it leaves is the session it
  received, verifier and oauth record included, and no provider call is made. The handler
  does not read the clock, so a record whose \<open>expire_at\<close> lies in the past is served like
  any other and no refresh is triggered.
\<close>

theorem token_handler_pure_read:
  "session_out (token_handler env_pat cfg s) = s \<and> calls (token_handler env_pat cfg s) = []"
  by (simp add: token_handler_def token_fallback_frame split: option.splits)

text \<open>A session whose record expired at 3601000 is returned as it is.\<close>

theorem token_handler_pure_read_witness:
  "session_out (token_handler None sample_config authenticated_session) =
     authenticated_session
   \<and> calls (token_handler None sample_config authenticated_session) = []
   \<and> expire_at (the (oauth authenticated_session)) = Fin 3601000"
  using token_handler_pure_read[where env_pat = None and cfg = sample_config
      and s = authenticated_session]
  by (simp add: authenticated_session_def)

text \<open>
  After a logout, with \<^verbatim>\<open>pat\<close> holding a token, \<^verbatim>\<open>/token\<close> answers 401 when \<^verbatim>\<open>websdk_pat\<close>
  is blank and 500 when it is a number: the configured fallback is not served.
\<close>

theorem logout_then_token_counterexample:
  "pat blank_config = JStr ''pat_low''
   \<and> token_handler None blank_config (session_out (logout_handler authenticated_session)) =
       \<lparr>status = 401, body = ErrorJson not_configured, session_out = empty_session,
        calls = []\<rparr>
   \<and> pat numeric_config = JStr ''pat_low''
   \<and> token_handler None numeric_config (session_out (logout_handler authenticated_session)) =
       \<lparr>status = 500, body = RuntimeErrorJson ''Failed to provide token: '',
        session_out = empty_session, calls = []\<rparr>"
proof -
  have sp: "is_space CHR '' ''" by (simp add: is_space_def)
  show ?thesis
    by (simp add: logout_handler_def empty_session_def blank_config_def
        numeric_config_def token_handler_def token_fallback_def fallback_pat_def js_or_def
        env_value_def trim_def sp)
qed

text \<open>
  C8, amended. \<^verbatim>\<open>POST /logout\<close> always answers 200 with \<^verbatim>\<open>{ok:true}\<close>, calls no
  provider and leaves the empty (anonymous) session. \<^verbatim>\<open>GET /token\<close> on that session
  selects the first present value of \<^verbatim>\<open>COZE_PAT\<close>, \<^verbatim>\<open>websdk_pat\<close>, \<^verbatim>\<open>pat\<close>: it answers 401
  when none is present or the selected string is white space only, the selected string
  trimmed with \<open>token_type\<close> \<^verbatim>\<open>pat\<close> otherwise, and 500 when the selected value is not
  a string.
\<close>

theorem logout_then_token_policy:
  "status (logout_handler s) = 200 \<and> body (logout_handler s) = OkJson
   \<and> session_out (logout_handler s) = empty_session \<and> calls (logout_handler s) = []
   \<and> (find truthy [env_value env_pat, websdk_pat cfg, pat cfg] = None \<longrightarrow>
        token_handler env_pat cfg (session_out (logout_handler s)) =
          \<lparr>status = 401, body = ErrorJson not_configured, session_out = empty_session,
           calls = []\<rparr>)
   \<and> (\<forall>raw. find truthy [env_value env_pat, websdk_pat cfg, pat cfg] = Some (JStr raw) \<longrightarrow>
        token_handler env_pat cfg (session_out (logout_handler s)) =
          (if \<forall>c\<in>set raw. is_space c then
             \<lparr>status = 401, body = ErrorJson not_configured, session_out = empty_session,
              calls = []\<rparr>
           else
             \<lparr>status = 200, body = TokenJson ''pat'' (JStr (trim raw)),
              session_out = empty_session, calls = []\<rparr>))
   \<and> (\<forall>v. find truthy [env_value env_pat, websdk_pat cfg, pat cfg] = Some v
            \<and> (\<forall>raw. v \<noteq> JStr raw) \<longrightarrow>
        token_handler env_pat cfg (session_out (logout_handler s)) =
          \<lparr>status = 500, body = RuntimeErrorJson ''Failed to provide token: '',
           session_out = empty_session, calls = []\<rparr>)"
proof -
  have out: "session_out (logout_handler s) = empty_session"
    by (simp add: logout_handler_def)
  have anon: "token_handler env_pat cfg empty_session = token_fallback env_pat cfg empty_session"
    by (rule token_handler_anonymous) (simp add: session_access_token_def empty_session_def)
  have a: "token_fallback env_pat cfg empty_session =
      \<lparr>status = 401, body = ErrorJson not_configured, session_out = empty_session,
       calls = []\<rparr>"
    if "find truthy [env_value env_pat, websdk_pat cfg, pat cfg] = None"
    using that by (rule token_fallback_none)
  have b: "token_fallback env_pat cfg empty_session =
      (if \<forall>c\<in>set raw. is_space c then
         \<lparr>status = 401, body = ErrorJson not_configured, session_out = empty_session,
          calls = []\<rparr>
       else
         \<lparr>status = 200, body = TokenJson ''pat'' (JStr (trim raw)),
          session_out = empty_session, calls = []\<rparr>)"
    if "find truthy [env_value env_pat, websdk_pat cfg, pat cfg] = Some (JStr raw)" for raw
    using that by (rule token_fallback_string)
  have c: "token_fallback env_pat cfg empty_session =
      \<lparr>status = 500, body = RuntimeErrorJson ''Failed to provide token: '',
       session_out = empty_session, calls = []\<rparr>"
    if "find truthy [env_value env_pat, websdk_pat cfg, pat cfg] = Some v"
      "\<forall>raw. v \<noteq> JStr raw" for v
    using that by (rule token_fallback_other)
  have l: "status (logout_handler s) = 200 \<and> body (logout_handler s) = OkJson
      \<and> calls (logout_handler s) = []"
    by (simp add: logout_handler_def)
  show ?thesis
    unfolding out anon using l a b c by blast
qed

text \<open>
  Logout of an authenticated session, then \<^verbatim>\<open>/token\<close> without a fallback, with a file
  token, with a blank environment override and with a numeric file token.
\<close>

theorem logout_then_token_policy_witness:
  "status (logout_handler authenticated_session) = 200
   \<and> body (logout_handler authenticated_session) = OkJson
   \<and> session_out (logout_handler authenticated_session) = empty_session
   \<and> token_handler None (sample_config\<lparr>websdk_pat := JUndefined\<rparr>)
       (session_out (logout_handler authenticated_session)) =
       \<lparr>status = 401, body = ErrorJson not_configured,
        session_out = empty_session, calls = []\<rparr>
   \<and> token_handler None sample_config (session_out (logout_handler authenticated_session)) =
       \<lparr>status = 200, body = TokenJson ''pat'' (JStr ''pat_file''),
        session_out = empty_session, calls = []\<rparr>
   \<and> token_handler (Some ''   '') sample_config
       (session_out (logout_handler authenticated_session)) =
       \<lparr>status = 401, body = ErrorJson not_configured,
        session_out = empty_session, calls = []\<rparr>
   \<and> token_handler None numeric_config (session_out (logout_handler authenticated_session)) =
       \<lparr>status = 500, body = RuntimeErrorJson ''Failed to provide token: '',
        session_out = empty_session, calls = []\<rparr>"
proof -
  have sp: "is_space CHR '' ''" "\<not> is_space CHR ''p''" "\<not> is_space CHR ''e''"
    by (simp_all add: is_space_def)
  have f1: "find truthy [env_value None, websdk_pat (sample_config\<lparr>websdk_pat := JUndefined\<rparr>),
      pat (sample_config\<lparr>websdk_pat := JUndefined\<rparr>)] = None"
    by (simp add: env_value_def sample_config_def)
  have f2: "find truthy [env_value None, websdk_pat sample_config, pat sample_config] =
      Some (JStr ''  pat_file  '')"
    by (simp add: env_value_def sample_config_def)
  have t2: "\<not> (\<forall>c\<in>set ''  pat_file  ''. is_space c)" "trim ''  pat_file  '' = ''pat_file''"
    by (simp_all add: trim_def sp)
  have f3: "find truthy [env_value (Some ''   ''), websdk_pat sample_config, pat sample_config] =
      Some (JStr ''   '')"
    by (simp add: env_value_def)
  have t3: "\<forall>c\<in>set ''   ''. is_space c"
    by (simp add: sp)
  have f4: "find truthy [env_value None, websdk_pat numeric_config, pat numeric_config] =
      Some (JNum (Fin 123)) \<and> (\<forall>raw. JNum (Fin 123) \<noteq> JStr raw)"
    by (simp add: env_value_def numeric_config_def)
  note p1 = logout_then_token_policy[of authenticated_session None
      "sample_config\<lparr>websdk_pat := JUndefined\<rparr>"]
  note p2 = logout_then_token_policy[of authenticated_session None sample_config]
  note p3 = logout_then_token_policy[of authenticated_session "Some ''   ''" sample_config]
  note p4 = logout_then_token_policy[of authenticated_session None numeric_config]
  have 1: "token_handler None (sample_config\<lparr>websdk_pat := JUndefined\<rparr>)
       (session_out (logout_handler authenticated_session)) =
       \<lparr>status = 401, body = ErrorJson not_configured,
        session_out = empty_session, calls = []\<rparr>"
    using p1 f1 by blast
  have "token_handler None sample_config
       (session_out (logout_handler authenticated_session)) =
       (if \<forall>c\<in>set ''  pat_file  ''. is_space c then
          \<lparr>status = 401, body = ErrorJson not_configured, session_out = empty_session,
           calls = []\<rparr>
        else
          \<lparr>status = 200, body = TokenJson ''pat'' (JStr (trim ''  pat_file  '')),
           session_out = empty_session, calls = []\<rparr>)"
    using p2 f2 by blast
  then have 2: "token_handler None sample_config
       (session_out (logout_handler authenticated_session)) =
       \<lparr>status = 200, body = TokenJson ''pat'' (JStr ''pat_file''),
        session_out = empty_session, calls = []\<rparr>"
    by (simp add: sp trim_def)
  have "token_handler (Some ''   '') sample_config
       (session_out (logout_handler authenticated_session)) =
       (if \<forall>c\<in>set ''   ''. is_space c then
          \<lparr>status = 401, body = ErrorJson not_configured, session_out = empty_session,
           calls = []\<rparr>
        else
          \<lparr>status = 200, body = TokenJson ''pat'' (JStr (trim ''   '')),
           session_out = empty_session, calls = []\<rparr>)"
    using p3 f3 by blast
  then have 3: "token_handler (Some ''   '') sample_config
       (session_out (logout_handler authenticated_session)) =
       \<lparr>status = 401, body = ErrorJson not_configured,
        session_out = empty_session, calls = []\<rparr>"
    by (simp add: sp)
  have 4: "token_handler None numeric_config
       (session_out (logout_handler authenticated_session)) =
       \<lparr>status = 500, body = RuntimeErrorJson ''Failed to provide token: '',
        session_out = empty_session, calls = []\<rparr>"
    using p4 f4 by blast
  from p2 1 2 3 4 show ?thesis by blast
qed

text \<open>
  C9. A body whose \<open>refresh_token\<close> is the empty string, or any other falsy value, is
  handled by \<^verbatim>\<open>POST /refresh_token\<close> exactly as a body without one: the whole outcome
  equals that of the request with \<^verbatim>\<open>undefined\<close>, so the session's token is used and 401
  is answered only when that is absent too. Whatever the request, every refresh token
  that reaches the provider is truthy: the empty string never does.
\<close>

theorem refresh_falsy_body_token:
  "(\<not> truthy bt \<longrightarrow>
      refresh_handler prov cfg now bt s = refresh_handler prov cfg now JUndefined s)
   \<and> (\<forall>c \<in> set (calls (refresh_handler prov cfg now bt s)).
        \<forall>base cid v. c = RefreshOAuthToken base cid v \<longrightarrow> truthy v)"
  by (auto simp: refresh_handler_def resolve_refresh_token_def Let_def
      split: sum.splits option.splits if_splits)

text \<open>The empty string on an authenticated and on the empty session.\<close>

theorem refresh_falsy_body_token_witness:
  "refresh_handler accepting_provider sample_config 1000 (JStr []) authenticated_session
     = refresh_handler accepting_provider sample_config 1000 JUndefined
         authenticated_session
   \<and> calls (refresh_handler accepting_provider sample_config 1000 (JStr [])
         authenticated_session) =
       [RefreshOAuthToken ''https://api.coze.cn'' ''client-1'' (JStr ''rt-1'')]
   \<and> refresh_handler accepting_provider sample_config 1000 (JStr []) empty_session =
       \<lparr>status = 401, body = ErrorJson ''No refresh token available. Please re-login.'',
        session_out = empty_session, calls = []\<rparr>"
proof -
  have f: "\<not> truthy (JStr [])" by simp
  have u: "calls (refresh_handler accepting_provider sample_config 1000 JUndefined
         authenticated_session) =
       [RefreshOAuthToken ''https://api.coze.cn'' ''client-1'' (JStr ''rt-1'')]"
    by (simp add: refresh_handler_def resolve_refresh_token_def Let_def
        authenticated_session_def accepting_provider_def sample_config_def)
  have e: "refresh_handler accepting_provider sample_config 1000 JUndefined
        empty_session =
       \<lparr>status = 401, body = ErrorJson ''No refresh token available. Please re-login.'',
        session_out = empty_session, calls = []\<rparr>"
    by (simp add: refresh_handler_def resolve_refresh_token_def Let_def empty_session_def)
  from refresh_falsy_body_token[where bt = "JStr []" and prov = accepting_provider and cfg = sample_config and now = 1000
      and s = authenticated_session]
    refresh_falsy_body_token[where bt = "JStr []" and prov = accepting_provider and cfg = sample_config and now = 1000
      and s = empty_session] f u e
  show ?thesis by simp
qed

text \<open>
  C10. \<^verbatim>\<open>GET /token\<close> trims the fallback before testing it: on every session without a
  session token, anonymous ones included, when the fallback taken (the first present
  value of \<^verbatim>\<open>COZE_PAT\<close>, \<^verbatim>\<open>websdk_pat\<close>, \<^verbatim>\<open>pat\<close>) consists of white space only, the
  answer is 401 with the not-configured message, not a white space token.
\<close>

theorem blank_fallback_not_configured:
  assumes "session_access_token s = None"
    and "find truthy [env_value env_pat, websdk_pat cfg, pat cfg] = Some (JStr raw)"
    and "\<forall>c\<in>set raw. is_space c"
  shows "token_handler env_pat cfg s =
     \<lparr>status = 401, body = ErrorJson not_configured, session_out = s, calls = []\<rparr>"
proof -
  from assms(2) have sel: "fallback_pat env_pat cfg = JStr raw"
    by (auto simp: fallback_pat_def js_or_def split: if_splits)
  from assms(3) have "trim raw = []" by (simp add: trim_empty_iff)
  with sel have "token_fallback env_pat cfg s =
     \<lparr>status = 401, body = ErrorJson not_configured, session_out = s, calls = []\<rparr>"
    by (simp add: token_fallback_def)
  with assms(1) show ?thesis
    by (auto simp: token_handler_def session_access_token_def split: option.splits if_splits)
qed

text \<open>A file token of three spaces, with a lower-priority \<^verbatim>\<open>pat\<close> behind it.\<close>

theorem blank_fallback_not_configured_witness:
  "session_access_token pending_session = None
   \<and> find truthy [env_value None, websdk_pat blank_config, pat blank_config] =
       Some (JStr ''   '')
   \<and> token_handler None blank_config pending_session =
       \<lparr>status = 401, body = ErrorJson not_configured,
        session_out = pending_session, calls = []\<rparr>"
proof -
  have a: "session_access_token pending_session = None"
    by (simp add: session_access_token_def pending_session_def)
  have b: "find truthy [env_value None, websdk_pat blank_config, pat blank_config] =
       Some (JStr ''   '')"
    by (simp add: env_value_def blank_config_def)
  have c: "\<forall>c\<in>set ''   ''. is_space c" by (simp add: is_space_def)
  from blank_fallback_not_configured[OF a b c] a b show ?thesis by simp
qed

end
